theory Spec2Isabelle
  imports Main "HOL-Library.Char_ord" "HOL-Library.List_Lexorder"
begin

section \<open>The symbolic value model of torchdynamo/variable\_tracker.py\<close>

text \<open>
  The development embeds \<^verbatim>\<open>src/torchdynamo/variable_tracker.py\<close>: the three-valued
  support state, the guard sets carried by every tracked value, the class hierarchy of
  \<^verbatim>\<open>VariableTracker\<close> as one tagged union, and the operations on it. Python exceptions are
  values of the type \<open>error\<close>; a function that can raise returns \<open>error + 'a\<close>.
\<close>

subsection \<open>Exceptions\<close>

datatype error =
    TypeError
  | ValueError
  | NotImplementedError
  | StopIteration
  | IndexError
  | AssertionError
  | KeyError
  | AttributeError

subsection \<open>Python objects that the values wrap\<close>

text \<open>
  The literals a constant may hold, the slice objects built by \<^verbatim>\<open>SliceVariable\<close>, and
  opaque host objects (functions, modules, classes, graph proxies, dtypes), which are
  known only by their identity, the number that \<^verbatim>\<open>id\<close> returns. Floating point numbers
  and sets are not part of the model.
\<close>

datatype pyval =
    PNone
  | PBool bool
  | PInt int
  | PStr string
  | PList "pyval list"
  | PTuple "pyval list"
  | PSlice pyval pyval pyval
  | PObj nat

subsection \<open>\<^verbatim>\<open>TracingSupported\<close>\<close>

datatype TracingSupported = UNKNOWN | YES | NO

fun state_value :: "TracingSupported \<Rightarrow> int" where
  "state_value UNKNOWN = 0"
| "state_value YES = 1"
| "state_value NO = 2"

text \<open>The enum constructor \<^verbatim>\<open>TracingSupported(n)\<close>: a number that names no member raises.\<close>

definition TracingSupported_of :: "int \<Rightarrow> error + TracingSupported" where
  "TracingSupported_of n =
     (if n = 0 then Inr UNKNOWN
      else if n = 1 then Inr YES
      else if n = 2 then Inr NO
      else Inl ValueError)"

definition combine :: "TracingSupported \<Rightarrow> TracingSupported \<Rightarrow> error + TracingSupported" where
  "combine a b = TracingSupported_of (max (state_value a) (state_value b))"

subsection \<open>Guards\<close>

datatype GuardSource = LOCAL | GLOBAL

text \<open>
  Modelled from the spec: the class \<^verbatim>\<open>Guard\<close> of \<^verbatim>\<open>torchdynamo/guards.py\<close>, which is
  imported by the source and not part of it. A guard is the triple of a binding name, a
  binding source and a validation predicate; the predicate is the object handed to
  \<^verbatim>\<open>create_guard\<close>, whatever it is.
\<close>

datatype Guard = Guard (guard_name: string) (guard_source: GuardSource) (guard_fn: pyval)

subsection \<open>The fields of the base class\<close>

record base =
  state :: TracingSupported
  guards :: "Guard set"
  initial_name :: "string option"
  global_name :: "string option"

text \<open>
  The fields \<^verbatim>\<open>TensorVariable.__init__\<close> adds; \<^verbatim>\<open>None\<close> is \<open>PNone\<close>. The field
  \<^verbatim>\<open>size\<close> is \<open>size_field\<close> here, since \<open>size\<close> is a constant of HOL.
\<close>

record tensor_fields =
  proxy :: pyval
  dtype :: pyval
  device :: pyval
  ndim :: pyval
  size_field :: pyval
  stride :: pyval

text \<open>
  The keys of a \<^verbatim>\<open>ConstDictVariable\<close>: integer and string constants. Python orders
  integers among themselves and strings among themselves and refuses to compare one with
  the other.
\<close>

datatype dict_key = IntKey int | StrKey string

subsection \<open>The class hierarchy as a tagged union\<close>

text \<open>
  One constructor per concrete class, each with the base fields first and then the fields
  its own \<^verbatim>\<open>__init__\<close> stores. A Python \<^verbatim>\<open>dict\<close> is an association list in insertion
  order. A field that holds a host object (the function of a builtin or user function, the
  module or function of \<^verbatim>\<open>torch\<close>, a Python module, the type of an unsupported object)
  is the identity of that object.
\<close>

datatype VariableTracker =
    TensorVariable base tensor_fields
  | BasicTypeVariable base tensor_fields
  | NNModuleVariable base string
  | ConstantVariable base pyval
  | FunctionConstantWrapper base VariableTracker
  | BuiltinVariable base nat
  | ListIteratorVariable base "VariableTracker list" int
  | GetAttrVariable base VariableTracker string
  | ListVariable base "VariableTracker list"
  | TupleVariable base "VariableTracker list"
  | SliceVariable base "VariableTracker list"
  | ConstDictVariable base "(dict_key \<times> VariableTracker) list"
  | UserFunctionVariable base nat
  | UserMethodVariable base nat VariableTracker
  | AllowedFunctionOrModuleVariable base nat
  | PythonModuleVariable base nat
  | UnsupportedVariable base pyval nat
  | UnknownVariable base

fun base_of :: "VariableTracker \<Rightarrow> base" where
  "base_of (TensorVariable b t) = b"
| "base_of (BasicTypeVariable b t) = b"
| "base_of (NNModuleVariable b k) = b"
| "base_of (ConstantVariable b c) = b"
| "base_of (FunctionConstantWrapper b w) = b"
| "base_of (BuiltinVariable b f) = b"
| "base_of (ListIteratorVariable b xs i) = b"
| "base_of (GetAttrVariable b obj n) = b"
| "base_of (ListVariable b xs) = b"
| "base_of (TupleVariable b xs) = b"
| "base_of (SliceVariable b xs) = b"
| "base_of (ConstDictVariable b kvs) = b"
| "base_of (UserFunctionVariable b f) = b"
| "base_of (UserMethodVariable b f obj) = b"
| "base_of (AllowedFunctionOrModuleVariable b c) = b"
| "base_of (PythonModuleVariable b c) = b"
| "base_of (UnsupportedVariable b c t) = b"
| "base_of (UnknownVariable b) = b"

definition state_of :: "VariableTracker \<Rightarrow> TracingSupported" where
  "state_of v = state (base_of v)"

definition guards_of :: "VariableTracker \<Rightarrow> Guard set" where
  "guards_of v = guards (base_of v)"

subsection \<open>\<^verbatim>\<open>propagate\<close>\<close>

text \<open>
  \<^verbatim>\<open>functools.reduce(f, xs)\<close> without an initial value: a left fold from the first
  element, and a \<^verbatim>\<open>TypeError\<close> on an empty sequence.
\<close>

fun reduce_from :: "('a \<Rightarrow> 'a \<Rightarrow> error + 'a) \<Rightarrow> 'a \<Rightarrow> 'a list \<Rightarrow> error + 'a" where
  "reduce_from f acc [] = Inr acc"
| "reduce_from f acc (x # xs) =
     (case f acc x of Inl e \<Rightarrow> Inl e | Inr acc' \<Rightarrow> reduce_from f acc' xs)"

fun reduce :: "('a \<Rightarrow> 'a \<Rightarrow> error + 'a) \<Rightarrow> 'a list \<Rightarrow> error + 'a" where
  "reduce f [] = Inl TypeError"
| "reduce f (x # xs) = reduce_from f x xs"

definition combine_states :: "TracingSupported list \<Rightarrow> error + TracingSupported" where
  "combine_states = reduce combine"

definition combine_guards :: "Guard set list \<Rightarrow> error + Guard set" where
  "combine_guards = reduce (\<lambda>a b. Inr (a \<union> b))"

text \<open>
  The dictionary \<^verbatim>\<open>propagate\<close> returns is handed on as keyword arguments. It has the
  entries \<^verbatim>\<open>"state"\<close> and \<^verbatim>\<open>"guards"\<close> or no entry at all; \<open>None\<close> is a missing entry.
\<close>

record options =
  opt_state :: "TracingSupported option"
  opt_guards :: "Guard set option"

definition propagate :: "VariableTracker list \<Rightarrow> error + options" where
  "propagate vars =
     (if length vars = 0 then Inr \<lparr>opt_state = None, opt_guards = None\<rparr>
      else case combine_states (map state_of vars) of
             Inl e \<Rightarrow> Inl e
           | Inr s \<Rightarrow>
               (case combine_guards (map guards_of vars) of
                  Inl e \<Rightarrow> Inl e
                | Inr g \<Rightarrow> Inr \<lparr>opt_state = Some s, opt_guards = Some g\<rparr>))"

text \<open>
  \<^verbatim>\<open>VariableTracker.__init__(**options)\<close>: a missing \<^verbatim>\<open>state\<close> is \<^verbatim>\<open>UNKNOWN\<close>,
  \<^verbatim>\<open>guards or set()\<close> turns a missing entry into the empty set, and both names are
  \<^verbatim>\<open>None\<close>.
\<close>

definition init_base :: "options \<Rightarrow> base" where
  "init_base kw =
     \<lparr>state = (case opt_state kw of None \<Rightarrow> UNKNOWN | Some s \<Rightarrow> s),
      guards = (case opt_guards kw of None \<Rightarrow> {} | Some g \<Rightarrow> if g = {} then {} else g),
      initial_name = None,
      global_name = None\<rparr>"

subsection \<open>\<^verbatim>\<open>TensorVariable.specialize\<close>\<close>

text \<open>
  What \<^verbatim>\<open>specialize\<close> reads from a live tensor: \<^verbatim>\<open>value.dtype\<close>, \<^verbatim>\<open>value.device\<close>,
  \<^verbatim>\<open>value.ndim\<close>, \<^verbatim>\<open>value.size()\<close> and \<^verbatim>\<open>value.stride()\<close>.
\<close>

record tensor =
  tensor_dtype :: pyval
  tensor_device :: pyval
  tensor_ndim :: int
  tensor_size :: "int list"
  tensor_stride :: "int list"

text \<open>
  The module \<^verbatim>\<open>torchdynamo.config\<close> is imported by the source and not part of it; the
  one setting \<^verbatim>\<open>specialize\<close> reads is a parameter.
\<close>

record config =
  dynamic_shapes :: bool

definition specialize :: "config \<Rightarrow> tensor \<Rightarrow> (string \<rightharpoonup> pyval)" where
  "specialize cfg v =
     (let props = [''dtype'' \<mapsto> tensor_dtype v,
                   ''device'' \<mapsto> tensor_device v,
                   ''ndim'' \<mapsto> PInt (tensor_ndim v)]
      in if \<not> dynamic_shapes cfg
         then props(''size'' \<mapsto> PTuple (map PInt (tensor_size v)),
                    ''stride'' \<mapsto> PTuple (map PInt (tensor_stride v)))
         else props)"

subsection \<open>\<^verbatim>\<open>create_guard\<close>\<close>

text \<open>
  The test \<^verbatim>\<open>if self.initial_name:\<close> is Python truthiness: \<^verbatim>\<open>None\<close> and the empty
  string are both false.
\<close>

fun truthy_name :: "string option \<Rightarrow> bool" where
  "truthy_name None = False"
| "truthy_name (Some n) = (n \<noteq> [])"

text \<open>The method of the base class, \<^verbatim>\<open>VariableTracker.create_guard\<close>.\<close>

definition VariableTracker_create_guard :: "base \<Rightarrow> pyval \<Rightarrow> error + Guard" where
  "VariableTracker_create_guard b fn =
     (if truthy_name (initial_name b) then Inr (Guard (the (initial_name b)) LOCAL fn)
      else if truthy_name (global_name b) then Inr (Guard (the (global_name b)) GLOBAL fn)
      else Inl NotImplementedError)"

text \<open>
  Method dispatch: \<^verbatim>\<open>GetAttrVariable\<close> overrides \<^verbatim>\<open>create_guard\<close> and formats the name
  \<^verbatim>\<open>f"{self.obj.initial_name}.{self.name}"\<close>; every other class inherits the method of
  the base class.
\<close>

fun create_guard :: "VariableTracker \<Rightarrow> pyval \<Rightarrow> error + Guard" where
  "create_guard (GetAttrVariable b obj n) fn =
     (if truthy_name (initial_name (base_of obj))
      then Inr (Guard (the (initial_name (base_of obj)) @ ''.'' @ n) LOCAL fn)
      else Inl NotImplementedError)"
| "create_guard v fn = VariableTracker_create_guard (base_of v) fn"

definition can_create_guard :: "VariableTracker \<Rightarrow> bool" where
  "can_create_guard v =
     (case create_guard v PNone of Inr g \<Rightarrow> True | Inl e \<Rightarrow> False)"

subsection \<open>\<^verbatim>\<open>ListIteratorVariable.next_variables\<close>\<close>

text \<open>
  Indexing a Python list: a negative index counts from the end, and an index outside the
  list raises \<^verbatim>\<open>IndexError\<close>.
\<close>

definition list_getitem :: "'a list \<Rightarrow> int \<Rightarrow> error + 'a" where
  "list_getitem xs i =
     (if 0 \<le> i \<and> i < int (length xs) then Inr (xs ! nat i)
      else if i < 0 \<and> - int (length xs) \<le> i then Inr (xs ! nat (int (length xs) + i))
      else Inl IndexError)"

text \<open>
  The method assigns to fields of \<^verbatim>\<open>self\<close>, so the model returns two things: what the
  call returns or raises, and the receiver as the call leaves it. On success the call
  returns the pair \<^verbatim>\<open>(item, self)\<close>, whose second component is the receiver after the
  update. The method exists on \<^verbatim>\<open>ListIteratorVariable\<close> only; looking it up on another
  class raises \<^verbatim>\<open>AttributeError\<close>.
\<close>

fun next_variables ::
  "VariableTracker \<Rightarrow> (error + VariableTracker \<times> VariableTracker) \<times> VariableTracker" where
  "next_variables (ListIteratorVariable b items index) =
     (if index \<ge> int (length items)
      then (Inl StopIteration, ListIteratorVariable b items index)
      else case list_getitem items index of
             Inl e \<Rightarrow> (Inl e, ListIteratorVariable b items index)
           | Inr item \<Rightarrow>
               (let self' = ListIteratorVariable (b\<lparr>initial_name := None\<rparr>) items (index + 1)
                in (Inr (item, self'), self')))"
| "next_variables v = (Inl AttributeError, v)"

text \<open>
  Advancing an iterator \<open>n\<close> times, as a traced loop does: the items emitted so far in
  order, or the first exception, together with the iterator as the calls leave it.
\<close>

fun advance :: "nat \<Rightarrow> VariableTracker \<Rightarrow> (error + VariableTracker list) \<times> VariableTracker" where
  "advance 0 it = (Inr [], it)"
| "advance (Suc n) it =
     (case next_variables it of
        (Inl e, it') \<Rightarrow> (Inl e, it')
      | (Inr (item, _), it') \<Rightarrow>
          (case advance n it' of
             (Inl e, it'') \<Rightarrow> (Inl e, it'')
           | (Inr rest, it'') \<Rightarrow> (Inr (item # rest), it'')))"

text \<open>The test \<^verbatim>\<open>isinstance(v, GetAttrVariable)\<close>.\<close>

fun is_GetAttrVariable :: "VariableTracker \<Rightarrow> bool" where
  "is_GetAttrVariable (GetAttrVariable b obj n) = True"
| "is_GetAttrVariable v = False"


subsection \<open>\<^verbatim>\<open>clone\<close> and \<^verbatim>\<open>add_guards\<close>\<close>

text \<open>
  \<^verbatim>\<open>clone(**kwargs)\<close> builds a new object of the same class from the fields of the
  receiver, with the fields named in the call replaced; every constructor accepts all the
  fields its class stores. The source calls it with the keywords \<^verbatim>\<open>guards\<close>,
  \<^verbatim>\<open>initial_name\<close> and \<^verbatim>\<open>items\<close>. The first two are fields of the base class:
  \<open>map_base f v\<close> is the copy of \<open>v\<close> with the base fields \<open>f\<close> gives.
\<close>

fun map_base :: "(base \<Rightarrow> base) \<Rightarrow> VariableTracker \<Rightarrow> VariableTracker" where
  "map_base f (TensorVariable b t) = TensorVariable (f b) t"
| "map_base f (BasicTypeVariable b t) = BasicTypeVariable (f b) t"
| "map_base f (NNModuleVariable b k) = NNModuleVariable (f b) k"
| "map_base f (ConstantVariable b c) = ConstantVariable (f b) c"
| "map_base f (FunctionConstantWrapper b w) = FunctionConstantWrapper (f b) w"
| "map_base f (BuiltinVariable b fn) = BuiltinVariable (f b) fn"
| "map_base f (ListIteratorVariable b xs i) = ListIteratorVariable (f b) xs i"
| "map_base f (GetAttrVariable b obj n) = GetAttrVariable (f b) obj n"
| "map_base f (ListVariable b xs) = ListVariable (f b) xs"
| "map_base f (TupleVariable b xs) = TupleVariable (f b) xs"
| "map_base f (SliceVariable b xs) = SliceVariable (f b) xs"
| "map_base f (ConstDictVariable b kvs) = ConstDictVariable (f b) kvs"
| "map_base f (UserFunctionVariable b fn) = UserFunctionVariable (f b) fn"
| "map_base f (UserMethodVariable b fn obj) = UserMethodVariable (f b) fn obj"
| "map_base f (AllowedFunctionOrModuleVariable b c) = AllowedFunctionOrModuleVariable (f b) c"
| "map_base f (PythonModuleVariable b c) = PythonModuleVariable (f b) c"
| "map_base f (UnsupportedVariable b c t) = UnsupportedVariable (f b) c t"
| "map_base f (UnknownVariable b) = UnknownVariable (f b)"


definition add_guard :: "VariableTracker \<Rightarrow> Guard \<Rightarrow> VariableTracker" where
  "add_guard v g = map_base (\<lambda>b. b\<lparr>guards := guards b \<union> {g}\<rparr>) v"

definition with_initial_name :: "VariableTracker \<Rightarrow> string \<Rightarrow> VariableTracker" where
  "with_initial_name v n = map_base (\<lambda>b. b\<lparr>initial_name := Some n\<rparr>) v"

subsection \<open>\<^verbatim>\<open>as_python_constant\<close>\<close>

text \<open>
  \<^verbatim>\<open>slice(*args)\<close> takes one to three arguments: \<^verbatim>\<open>slice(stop)\<close>,
  \<^verbatim>\<open>slice(start, stop)\<close>, \<^verbatim>\<open>slice(start, stop, step)\<close>.
\<close>

fun slice_new :: "pyval list \<Rightarrow> error + pyval" where
  "slice_new [b] = Inr (PSlice PNone b PNone)"
| "slice_new [a, b] = Inr (PSlice a b PNone)"
| "slice_new [a, b, c] = Inr (PSlice a b c)"
| "slice_new args = Inl TypeError"

text \<open>
  The base class raises \<^verbatim>\<open>NotImplementedError\<close>; constants, builtins and allowed
  functions return what they wrap; a list, tuple or slice value converts its items from
  left to right and stops at the first that raises.
\<close>

fun as_python_constant :: "VariableTracker \<Rightarrow> error + pyval"
  and as_python_constants :: "VariableTracker list \<Rightarrow> error + pyval list" where
  "as_python_constant (ConstantVariable b c) = Inr c"
| "as_python_constant (BuiltinVariable b fn) = Inr (PObj fn)"
| "as_python_constant (AllowedFunctionOrModuleVariable b c) = Inr (PObj c)"
| "as_python_constant (ListVariable b items) =
     (case as_python_constants items of Inl e \<Rightarrow> Inl e | Inr cs \<Rightarrow> Inr (PList cs))"
| "as_python_constant (TupleVariable b items) =
     (case as_python_constants items of Inl e \<Rightarrow> Inl e | Inr cs \<Rightarrow> Inr (PTuple cs))"
| "as_python_constant (SliceVariable b items) =
     (case as_python_constants items of Inl e \<Rightarrow> Inl e | Inr cs \<Rightarrow> slice_new cs)"
| "as_python_constant (TensorVariable b t) = Inl NotImplementedError"
| "as_python_constant (BasicTypeVariable b t) = Inl NotImplementedError"
| "as_python_constant (NNModuleVariable b k) = Inl NotImplementedError"
| "as_python_constant (FunctionConstantWrapper b w) = Inl NotImplementedError"
| "as_python_constant (ListIteratorVariable b xs i) = Inl NotImplementedError"
| "as_python_constant (GetAttrVariable b obj n) = Inl NotImplementedError"
| "as_python_constant (ConstDictVariable b kvs) = Inl NotImplementedError"
| "as_python_constant (UserFunctionVariable b fn) = Inl NotImplementedError"
| "as_python_constant (UserMethodVariable b fn obj) = Inl NotImplementedError"
| "as_python_constant (PythonModuleVariable b c) = Inl NotImplementedError"
| "as_python_constant (UnsupportedVariable b c t) = Inl NotImplementedError"
| "as_python_constant (UnknownVariable b) = Inl NotImplementedError"
| "as_python_constants [] = Inr []"
| "as_python_constants (x # xs) =
     (case as_python_constant x of
        Inl e \<Rightarrow> Inl e
      | Inr c \<Rightarrow> (case as_python_constants xs of Inl e \<Rightarrow> Inl e | Inr cs \<Rightarrow> Inr (c # cs)))"

definition is_python_constant :: "VariableTracker \<Rightarrow> bool" where
  "is_python_constant v = (case as_python_constant v of Inr c \<Rightarrow> True | Inl e \<Rightarrow> False)"

subsection \<open>Subscripting Python sequences\<close>







subsection \<open>\<^verbatim>\<open>getitem_const\<close>\<close>




subsection \<open>Dictionaries with constant keys\<close>

text \<open>
  The order \<^verbatim>\<open>sorted\<close> uses on keys: integers by value, strings lexicographically by
  character code. Python has no order between an integer and a string; so that the keys
  form a linear order, integers are put before strings here, and \<open>sorted_keys\<close> below
  never compares the two.
\<close>

instantiation dict_key :: linorder
begin

fun less_eq_dict_key :: "dict_key \<Rightarrow> dict_key \<Rightarrow> bool" where
  "less_eq_dict_key (IntKey i) (IntKey j) = (i \<le> j)"
| "less_eq_dict_key (StrKey s) (StrKey t) = (s \<le> t)"
| "less_eq_dict_key (IntKey i) (StrKey t) = True"
| "less_eq_dict_key (StrKey s) (IntKey j) = False"

definition less_dict_key :: "dict_key \<Rightarrow> dict_key \<Rightarrow> bool" where
  "less_dict_key x y = (x \<le> y \<and> \<not> y \<le> x)"

instance
proof
  fix x y z :: dict_key
  show "(x < y) = (x \<le> y \<and> \<not> y \<le> x)" by (simp add: less_dict_key_def)
  show "x \<le> x" by (cases x) simp_all
  show "x \<le> y \<Longrightarrow> y \<le> z \<Longrightarrow> x \<le> z" by (cases x; cases y; cases z) auto
  show "x \<le> y \<Longrightarrow> y \<le> x \<Longrightarrow> x = y" by (cases x; cases y) auto
  show "x \<le> y \<or> y \<le> x" by (cases x; cases y) auto
qed

end

fun is_IntKey :: "dict_key \<Rightarrow> bool" where
  "is_IntKey (IntKey i) = True"
| "is_IntKey (StrKey s) = False"

fun is_StrKey :: "dict_key \<Rightarrow> bool" where
  "is_StrKey (StrKey s) = True"
| "is_StrKey (IntKey i) = False"

text \<open>
  \<^verbatim>\<open>sorted(d.keys())\<close>: the keys in ascending order when they are all integers or all
  strings. Sorting has to compare an integer with a string as soon as both occur, and
  that comparison raises \<^verbatim>\<open>TypeError\<close>.
\<close>

definition sorted_keys :: "dict_key list \<Rightarrow> error + dict_key list" where
  "sorted_keys ks =
     (if (\<forall>k \<in> set ks. is_IntKey k) \<or> (\<forall>k \<in> set ks. is_StrKey k) then Inr (sort ks)
      else Inl TypeError)"

text \<open>\<^verbatim>\<open>d[k]\<close> on a dictionary.\<close>

definition dict_getitem :: "('k \<times> 'v) list \<Rightarrow> 'k \<Rightarrow> error + 'v" where
  "dict_getitem items k = (case map_of items k of None \<Rightarrow> Inl KeyError | Some v \<Rightarrow> Inr v)"

subsection \<open>\<^verbatim>\<open>get_key\<close>\<close>

datatype cls =
    TensorVariable_class
  | BasicTypeVariable_class
  | NNModuleVariable_class
  | ConstantVariable_class
  | FunctionConstantWrapper_class
  | BuiltinVariable_class
  | ListIteratorVariable_class
  | GetAttrVariable_class
  | ListVariable_class
  | TupleVariable_class
  | SliceVariable_class
  | ConstDictVariable_class
  | UserFunctionVariable_class
  | UserMethodVariable_class
  | AllowedFunctionOrModuleVariable_class
  | PythonModuleVariable_class
  | UnsupportedVariable_class
  | UnknownVariable_class


text \<open>
  An identity key is a class, or a tuple that starts with a class. Its other components
  are Python values (a string, a literal, the integer \<^verbatim>\<open>id\<close> returns), nested keys, and
  for \<^verbatim>\<open>FunctionConstantWrapper\<close> the wrapped tracked value itself.
\<close>

datatype key =
    KClass cls
  | KVal pyval
  | KVar VariableTracker
  | KTuple "key list"

fun key_of_dict_key :: "dict_key \<Rightarrow> key" where
  "key_of_dict_key (IntKey i) = KVal (PInt i)"
| "key_of_dict_key (StrKey s) = KVal (PStr s)"

text \<open>
  \<^verbatim>\<open>get_key\<close>, by class. The base class returns the class alone, and the tensor, scalar
  and unknown values inherit that. \<^verbatim>\<open>id(x)\<close> of a host object is its identity. The
  iterator takes \<^verbatim>\<open>id(self.index)\<close>, the address of an integer object, which the
  language does not fix: it is the parameter \<open>id_int\<close>. The key of a dictionary value
  sorts the keys first and then takes the key of each item in that order.
\<close>

function get_key :: "(int \<Rightarrow> nat) \<Rightarrow> VariableTracker \<Rightarrow> error + key"
  and get_keys :: "(int \<Rightarrow> nat) \<Rightarrow> VariableTracker list \<Rightarrow> error + key list"
  and get_key_items ::
    "(int \<Rightarrow> nat) \<Rightarrow> (dict_key \<times> VariableTracker) list \<Rightarrow> dict_key list \<Rightarrow>
     error + key list"
  where
  "get_key id_int (TensorVariable b t) = Inr (KClass TensorVariable_class)"
| "get_key id_int (BasicTypeVariable b t) = Inr (KClass BasicTypeVariable_class)"
| "get_key id_int (UnknownVariable b) = Inr (KClass UnknownVariable_class)"
| "get_key id_int (NNModuleVariable b module_key) =
     Inr (KTuple [KClass NNModuleVariable_class, KVal (PStr module_key)])"
| "get_key id_int (ConstantVariable b c) =
     Inr (KTuple [KClass ConstantVariable_class, KVal c])"
| "get_key id_int (FunctionConstantWrapper b w) =
     Inr (KTuple [KClass FunctionConstantWrapper_class, KVar w])"
| "get_key id_int (BuiltinVariable b fn) =
     Inr (KTuple [KClass BuiltinVariable_class, KVal (PInt (int fn))])"
| "get_key id_int (ListIteratorVariable b items index) =
     (case get_keys id_int items of
        Inl e \<Rightarrow> Inl e
      | Inr ks \<Rightarrow>
          Inr (KTuple [KClass ListIteratorVariable_class,
                       KVal (PInt (int (id_int index))), KTuple ks]))"
| "get_key id_int (GetAttrVariable b obj n) =
     (case get_key id_int obj of
        Inl e \<Rightarrow> Inl e
      | Inr k \<Rightarrow> Inr (KTuple [KClass GetAttrVariable_class, KVal (PStr n), k]))"
| "get_key id_int (ListVariable b items) =
     (case get_keys id_int items of
        Inl e \<Rightarrow> Inl e
      | Inr ks \<Rightarrow> Inr (KTuple [KClass ListVariable_class, KTuple ks]))"
| "get_key id_int (TupleVariable b items) =
     (case get_keys id_int items of
        Inl e \<Rightarrow> Inl e
      | Inr ks \<Rightarrow> Inr (KTuple [KClass TupleVariable_class, KTuple ks]))"
| "get_key id_int (SliceVariable b items) =
     (case get_keys id_int items of
        Inl e \<Rightarrow> Inl e
      | Inr ks \<Rightarrow> Inr (KTuple [KClass SliceVariable_class, KTuple ks]))"
| "get_key id_int (ConstDictVariable b items) =
     (case sorted_keys (map fst items) of
        Inl e \<Rightarrow> Inl e
      | Inr ks \<Rightarrow>
          (case get_key_items id_int items ks of
             Inl e \<Rightarrow> Inl e
           | Inr kvs \<Rightarrow> Inr (KTuple [KClass ConstDictVariable_class, KTuple kvs])))"
| "get_key id_int (UserFunctionVariable b fn) =
     Inr (KTuple [KClass UserFunctionVariable_class, KVal (PInt (int fn))])"
| "get_key id_int (UserMethodVariable b fn obj) =
     (case get_key id_int obj of
        Inl e \<Rightarrow> Inl e
      | Inr k \<Rightarrow> Inr (KTuple [KClass UserMethodVariable_class, KVal (PInt (int fn)), k]))"
| "get_key id_int (AllowedFunctionOrModuleVariable b c) =
     Inr (KTuple [KClass AllowedFunctionOrModuleVariable_class, KVal (PInt (int c))])"
| "get_key id_int (PythonModuleVariable b c) =
     Inr (KTuple [KClass PythonModuleVariable_class, KVal (PInt (int c))])"
| "get_key id_int (UnsupportedVariable b c value_type) =
     Inr (KTuple [KClass UnsupportedVariable_class, KVal (PInt (int value_type))])"
| "get_keys id_int [] = Inr []"
| "get_keys id_int (v # vs) =
     (case get_key id_int v of
        Inl e \<Rightarrow> Inl e
      | Inr k \<Rightarrow> (case get_keys id_int vs of Inl e \<Rightarrow> Inl e | Inr ks \<Rightarrow> Inr (k # ks)))"
| "get_key_items id_int items [] = Inr []"
| "get_key_items id_int items (k # ks) =
     (case dict_getitem items k of
        Inl e \<Rightarrow> Inl e
      | Inr v \<Rightarrow>
          (case get_key id_int v of
             Inl e \<Rightarrow> Inl e
           | Inr kv \<Rightarrow>
               (case get_key_items id_int items ks of
                  Inl e \<Rightarrow> Inl e
                | Inr kvs \<Rightarrow> Inr (KTuple [key_of_dict_key k, kv] # kvs))))"
  by pat_completeness auto
termination
proof -
  have smaller: "size v < size_list (size_prod (\<lambda>_. 0) size) items"
    if "dict_getitem items k = Inr v"
    for items :: "(dict_key \<times> VariableTracker) list" and k v
    using that
    by (induction items) (auto simp: dict_getitem_def split: if_splits option.splits)
  show ?thesis
    by (relation "measures
         [\<lambda>x. case x of
                 Inl (_, v) \<Rightarrow> size v
               | Inr (Inl (_, vs)) \<Rightarrow> size_list size vs
               | Inr (Inr (_, items, _)) \<Rightarrow> size_list (size_prod (\<lambda>_. 0) size) items,
          \<lambda>x. case x of Inr (Inr (_, _, ks)) \<Rightarrow> length ks | _ \<Rightarrow> 0]")
      (auto dest: smaller)
qed

text \<open>
  Python's \<^verbatim>\<open>==\<close> on the modelled values: \<^verbatim>\<open>True\<close> and \<^verbatim>\<open>False\<close> are the integers 1
  and 0, lists, tuples and slices compare member by member, a list is never equal to a
  tuple, and a host object is equal to itself only (the default of \<^verbatim>\<open>object\<close>).
\<close>

fun py_eq :: "pyval \<Rightarrow> pyval \<Rightarrow> bool"
  and py_eq_list :: "pyval list \<Rightarrow> pyval list \<Rightarrow> bool" where
  "py_eq PNone PNone = True"
| "py_eq (PBool s) (PBool t) = (s = t)"
| "py_eq (PBool s) (PInt j) = ((if s then 1 else 0) = j)"
| "py_eq (PInt i) (PBool t) = (i = (if t then 1 else 0))"
| "py_eq (PInt i) (PInt j) = (i = j)"
| "py_eq (PStr s) (PStr t) = (s = t)"
| "py_eq (PList xs) (PList ys) = py_eq_list xs ys"
| "py_eq (PTuple xs) (PTuple ys) = py_eq_list xs ys"
| "py_eq (PSlice a b c) (PSlice a' b' c') = (py_eq a a' \<and> py_eq b b' \<and> py_eq c c')"
| "py_eq (PObj m) (PObj n) = (m = n)"
| "py_eq x y = False"
| "py_eq_list [] [] = True"
| "py_eq_list (x # xs) (y # ys) = (py_eq x y \<and> py_eq_list xs ys)"
| "py_eq_list xs ys = False"

text \<open>
  \<^verbatim>\<open>==\<close> on keys: tuples compare member by member and classes by identity. Two tracked
  values are the same object only if they are equal as values, so for the wrapped value
  of a \<^verbatim>\<open>FunctionConstantWrapper\<close> equality of values stands for identity: keys that
  Python finds equal are equal here. Components of different kinds never meet at the same
  position of two keys of the same class; they are unequal here.
\<close>

fun key_eq :: "key \<Rightarrow> key \<Rightarrow> bool"
  and key_eq_list :: "key list \<Rightarrow> key list \<Rightarrow> bool" where
  "key_eq (KClass c) (KClass d) = (c = d)"
| "key_eq (KVal x) (KVal y) = py_eq x y"
| "key_eq (KVar v) (KVar w) = (v = w)"
| "key_eq (KTuple ks) (KTuple ls) = key_eq_list ks ls"
| "key_eq k l = False"
| "key_eq_list [] [] = True"
| "key_eq_list (k # ks) (l # ls) = (key_eq k l \<and> key_eq_list ks ls)"
| "key_eq_list ks ls = False"

subsection \<open>\<^verbatim>\<open>apply\<close> and \<^verbatim>\<open>copy\<close>\<close>

text \<open>
  \<^verbatim>\<open>VariableTracker.apply(fn, value)\<close>. On a tracked value it walks the attribute
  dictionary of the value in sorted order of the attribute names, rebuilds the value from
  the results with \<^verbatim>\<open>clone\<close>, and calls \<^verbatim>\<open>fn\<close> on the clone; on a list it walks the
  elements in order; on a dictionary it sorts the keys and walks the values in that
  order; anything else comes back as it is. Every class has at most one attribute that
  holds tracked values, so the order of the attributes does not show; an attribute
  without tracked values (a literal, a guard set, a name, a host object) comes back
  unchanged.

  The callable \<^verbatim>\<open>fn\<close> may have effects of its own (it may collect what it sees), so it
  is a function from the value and a state to the result and the new state, and the
  state is threaded through the calls in the order in which Python makes them. When
  sorting the keys raises, the exception leaves \<^verbatim>\<open>apply\<close>.
\<close>

function VariableTracker_apply ::
    "(VariableTracker \<Rightarrow> 's \<Rightarrow> VariableTracker \<times> 's) \<Rightarrow> VariableTracker \<Rightarrow> 's \<Rightarrow>
     error + VariableTracker \<times> 's"
  and apply_list ::
    "(VariableTracker \<Rightarrow> 's \<Rightarrow> VariableTracker \<times> 's) \<Rightarrow> VariableTracker list \<Rightarrow> 's \<Rightarrow>
     error + VariableTracker list \<times> 's"
  and apply_dict ::
    "(VariableTracker \<Rightarrow> 's \<Rightarrow> VariableTracker \<times> 's) \<Rightarrow>
     (dict_key \<times> VariableTracker) list \<Rightarrow> dict_key list \<Rightarrow> 's \<Rightarrow>
     error + (dict_key \<times> VariableTracker) list \<times> 's"
  where
  "VariableTracker_apply fn (TensorVariable b t) s = Inr (fn (TensorVariable b t) s)"
| "VariableTracker_apply fn (BasicTypeVariable b t) s = Inr (fn (BasicTypeVariable b t) s)"
| "VariableTracker_apply fn (NNModuleVariable b k) s = Inr (fn (NNModuleVariable b k) s)"
| "VariableTracker_apply fn (ConstantVariable b c) s = Inr (fn (ConstantVariable b c) s)"
| "VariableTracker_apply fn (FunctionConstantWrapper b w) s =
     (case VariableTracker_apply fn w s of
        Inl e \<Rightarrow> Inl e
      | Inr (w', s') \<Rightarrow> Inr (fn (FunctionConstantWrapper b w') s'))"
| "VariableTracker_apply fn (BuiltinVariable b f) s = Inr (fn (BuiltinVariable b f) s)"
| "VariableTracker_apply fn (ListIteratorVariable b items index) s =
     (case apply_list fn items s of
        Inl e \<Rightarrow> Inl e
      | Inr (items', s') \<Rightarrow> Inr (fn (ListIteratorVariable b items' index) s'))"
| "VariableTracker_apply fn (GetAttrVariable b obj n) s =
     (case VariableTracker_apply fn obj s of
        Inl e \<Rightarrow> Inl e
      | Inr (obj', s') \<Rightarrow> Inr (fn (GetAttrVariable b obj' n) s'))"
| "VariableTracker_apply fn (ListVariable b items) s =
     (case apply_list fn items s of
        Inl e \<Rightarrow> Inl e
      | Inr (items', s') \<Rightarrow> Inr (fn (ListVariable b items') s'))"
| "VariableTracker_apply fn (TupleVariable b items) s =
     (case apply_list fn items s of
        Inl e \<Rightarrow> Inl e
      | Inr (items', s') \<Rightarrow> Inr (fn (TupleVariable b items') s'))"
| "VariableTracker_apply fn (SliceVariable b items) s =
     (case apply_list fn items s of
        Inl e \<Rightarrow> Inl e
      | Inr (items', s') \<Rightarrow> Inr (fn (SliceVariable b items') s'))"
| "VariableTracker_apply fn (ConstDictVariable b items) s =
     (case sorted_keys (map fst items) of
        Inl e \<Rightarrow> Inl e
      | Inr ks \<Rightarrow>
          (case apply_dict fn items ks s of
             Inl e \<Rightarrow> Inl e
           | Inr (items', s') \<Rightarrow> Inr (fn (ConstDictVariable b items') s')))"
| "VariableTracker_apply fn (UserFunctionVariable b f) s =
     Inr (fn (UserFunctionVariable b f) s)"
| "VariableTracker_apply fn (UserMethodVariable b f obj) s =
     (case VariableTracker_apply fn obj s of
        Inl e \<Rightarrow> Inl e
      | Inr (obj', s') \<Rightarrow> Inr (fn (UserMethodVariable b f obj') s'))"
| "VariableTracker_apply fn (AllowedFunctionOrModuleVariable b c) s =
     Inr (fn (AllowedFunctionOrModuleVariable b c) s)"
| "VariableTracker_apply fn (PythonModuleVariable b c) s =
     Inr (fn (PythonModuleVariable b c) s)"
| "VariableTracker_apply fn (UnsupportedVariable b c t) s =
     Inr (fn (UnsupportedVariable b c t) s)"
| "VariableTracker_apply fn (UnknownVariable b) s = Inr (fn (UnknownVariable b) s)"
| "apply_list fn [] s = Inr ([], s)"
| "apply_list fn (v # vs) s =
     (case VariableTracker_apply fn v s of
        Inl e \<Rightarrow> Inl e
      | Inr (v', s') \<Rightarrow>
          (case apply_list fn vs s' of
             Inl e \<Rightarrow> Inl e
           | Inr (vs', s'') \<Rightarrow> Inr (v' # vs', s'')))"
| "apply_dict fn items [] s = Inr ([], s)"
| "apply_dict fn items (k # ks) s =
     (case dict_getitem items k of
        Inl e \<Rightarrow> Inl e
      | Inr v \<Rightarrow>
          (case VariableTracker_apply fn v s of
             Inl e \<Rightarrow> Inl e
           | Inr (v', s') \<Rightarrow>
               (case apply_dict fn items ks s' of
                  Inl e \<Rightarrow> Inl e
                | Inr (kvs, s'') \<Rightarrow> Inr ((k, v') # kvs, s''))))"
  by pat_completeness auto
termination
proof -
  have smaller: "size v < size_list (size_prod (\<lambda>_. 0) size) items"
    if "dict_getitem items k = Inr v"
    for items :: "(dict_key \<times> VariableTracker) list" and k v
    using that
    by (induction items) (auto simp: dict_getitem_def split: if_splits option.splits)
  show ?thesis
    by (relation "measures
         [\<lambda>x. case x of
                 Inl (_, v, _) \<Rightarrow> size v
               | Inr (Inl (_, vs, _)) \<Rightarrow> size_list size vs
               | Inr (Inr (_, items, _, _)) \<Rightarrow> size_list (size_prod (\<lambda>_. 0) size) items,
          \<lambda>x. case x of Inr (Inr (_, _, ks, _)) \<Rightarrow> length ks | _ \<Rightarrow> 0]")
      (auto dest: smaller)
qed


subsection \<open>What the specification says of the deep traversal\<close>


text \<open>
  The bottom-up transform of a tree by a function \<open>g\<close> without effects: the nested values
  are transformed first, a dictionary comes back with its keys in ascending order, and
  \<open>g\<close> is applied to the value rebuilt from the transformed parts.
\<close>

fun transform :: "(VariableTracker \<Rightarrow> VariableTracker) \<Rightarrow> VariableTracker \<Rightarrow> VariableTracker" where
  "transform g (FunctionConstantWrapper b w) = g (FunctionConstantWrapper b (transform g w))"
| "transform g (ListIteratorVariable b items index) =
     g (ListIteratorVariable b (map (transform g) items) index)"
| "transform g (GetAttrVariable b obj n) = g (GetAttrVariable b (transform g obj) n)"
| "transform g (ListVariable b items) = g (ListVariable b (map (transform g) items))"
| "transform g (TupleVariable b items) = g (TupleVariable b (map (transform g) items))"
| "transform g (SliceVariable b items) = g (SliceVariable b (map (transform g) items))"
| "transform g (ConstDictVariable b items) =
     g (ConstDictVariable b (map (\<lambda>kv. (fst kv, transform g (snd kv))) (sort_key fst items)))"
| "transform g (UserMethodVariable b f obj) = g (UserMethodVariable b f (transform g obj))"
| "transform g v = g v"


text \<open>
  The clone that is handed to the function at a value: the value rebuilt from its
  transformed parts, before the function is applied to it.
\<close>

fun rebuilt :: "(VariableTracker \<Rightarrow> VariableTracker) \<Rightarrow> VariableTracker \<Rightarrow> VariableTracker" where
  "rebuilt g (FunctionConstantWrapper b w) = FunctionConstantWrapper b (transform g w)"
| "rebuilt g (ListIteratorVariable b items index) =
     ListIteratorVariable b (map (transform g) items) index"
| "rebuilt g (GetAttrVariable b obj n) = GetAttrVariable b (transform g obj) n"
| "rebuilt g (ListVariable b items) = ListVariable b (map (transform g) items)"
| "rebuilt g (TupleVariable b items) = TupleVariable b (map (transform g) items)"
| "rebuilt g (SliceVariable b items) = SliceVariable b (map (transform g) items)"
| "rebuilt g (ConstDictVariable b items) =
     ConstDictVariable b (map (\<lambda>kv. (fst kv, transform g (snd kv))) (sort_key fst items))"
| "rebuilt g (UserMethodVariable b f obj) = UserMethodVariable b f (transform g obj)"
| "rebuilt g v = v"

section \<open>Properties\<close>

subsection \<open>Combining states and guards\<close>

lemma combine_max:
  "combine a b = Inr (if state_value a \<le> state_value b then b else a)"
  by (cases a; cases b) (simp_all add: combine_def TracingSupported_of_def)

lemma reduce_from_combine:
  "\<exists>s. reduce_from combine a xs = Inr s \<and>
       state_value s = Max (state_value ` insert a (set xs))"
proof (induction xs arbitrary: a)
  case Nil
  show ?case by simp
next
  case (Cons x xs)
  let ?m = "if state_value a \<le> state_value x then x else a"
  from Cons.IH [of ?m] obtain s where
    s: "reduce_from combine ?m xs = Inr s"
       "state_value s = Max (state_value ` insert ?m (set xs))"
    by blast
  have "Max (state_value ` insert ?m (set xs)) =
        Max (state_value ` insert a (set (x # xs)))"
  proof (cases "set xs = {}")
    case True
    then show ?thesis by (simp add: max_def)
  next
    case False
    then have "Max (insert (state_value a) (insert (state_value x) (state_value ` set xs))) =
               max (state_value a) (max (state_value x) (Max (state_value ` set xs)))"
      by simp
    moreover have "Max (insert (state_value ?m) (state_value ` set xs)) =
               max (state_value ?m) (Max (state_value ` set xs))"
      using False by simp
    ultimately show ?thesis by (simp add: max_def)
  qed
  moreover have "reduce_from combine a (x # xs) = reduce_from combine ?m xs"
    by (simp add: combine_max)
  ultimately show ?case using s by metis
qed

lemma reduce_from_union:
  "reduce_from (\<lambda>a b. Inr (a \<union> b)) a xs = Inr (a \<union> \<Union> (set xs))"
  by (induction xs arbitrary: a) auto

lemma state_value_eq_2: "state_value s = 2 \<longleftrightarrow> s = NO"
  by (cases s) simp_all

lemma state_value_eq_1: "state_value s = 1 \<longleftrightarrow> s = YES"
  by (cases s) simp_all

lemma state_value_le_2: "state_value s \<le> 2"
  by (cases s) simp_all

lemma propagate_nonempty:
  assumes "V \<noteq> []"
  shows "\<exists>s. propagate V =
              Inr \<lparr>opt_state = Some s, opt_guards = Some (\<Union> (guards_of ` set V))\<rparr> \<and>
             state_value s = Max (state_value ` state_of ` set V)"
proof -
  from assms obtain v vs where V: "V = v # vs" by (cases V) auto
  from reduce_from_combine [of "state_of v" "map state_of vs"] obtain s where
    s: "reduce_from combine (state_of v) (map state_of vs) = Inr s"
       "state_value s = Max (state_value ` insert (state_of v) (set (map state_of vs)))"
    by blast
  have "propagate V = Inr \<lparr>opt_state = Some s, opt_guards = Some (\<Union> (guards_of ` set V))\<rparr>"
    using s(1) by (simp add: V propagate_def combine_states_def combine_guards_def
        reduce_from_union)
  moreover have "state_value s = Max (state_value ` state_of ` set V)"
    using s(2) by (simp add: V)
  ultimately show ?thesis by blast
qed

subsection \<open>Claims about \<^verbatim>\<open>propagate\<close>\<close>

text \<open>
  C1 (as stated, refuted). The claim says that \<^verbatim>\<open>propagate\<close> on the empty list returns
  a record whose support state is \<^verbatim>\<open>UNKNOWN\<close> and whose guard set is empty. The source
  returns the empty dictionary: it has no state entry and no guards entry, so it is not
  the record the claim describes.
\<close>

theorem propagate_empty_counterexample:
  "propagate [] \<noteq> Inr \<lparr>opt_state = Some UNKNOWN, opt_guards = Some {}\<rparr> \<and>
   propagate [] = Inr \<lparr>opt_state = None, opt_guards = None\<rparr>"
  by (simp add: propagate_def)

text \<open>
  C1 (amended). On the empty list \<^verbatim>\<open>propagate\<close> returns the dictionary without entries,
  and a value constructed from these keyword arguments takes the defaults of the
  constructor: support state \<^verbatim>\<open>UNKNOWN\<close>, an empty guard set, and no names.
\<close>

theorem propagate_empty:
  "propagate [] = Inr \<lparr>opt_state = None, opt_guards = None\<rparr> \<and>
   state (init_base \<lparr>opt_state = None, opt_guards = None\<rparr>) = UNKNOWN \<and>
   guards (init_base \<lparr>opt_state = None, opt_guards = None\<rparr>) = {}"
  by (simp add: propagate_def init_base_def)

text \<open>
  C2. For a non-empty list \<open>V\<close>, \<^verbatim>\<open>propagate\<close> returns a record with a state \<open>s\<close>;
  \<open>s\<close> is \<^verbatim>\<open>NO\<close> (unsupported) exactly when some value of \<open>V\<close> has state \<^verbatim>\<open>NO\<close>;
  otherwise it is \<^verbatim>\<open>YES\<close> (supported) exactly when some value has state \<^verbatim>\<open>YES\<close>;
  otherwise it is \<^verbatim>\<open>UNKNOWN\<close>. Equivalently, \<open>s\<close> is the maximum of the states of \<open>V\<close> in
  the order \<^verbatim>\<open>UNKNOWN\<close> < \<^verbatim>\<open>YES\<close> < \<^verbatim>\<open>NO\<close>.
\<close>

theorem propagate_state:
  assumes "V \<noteq> []"
  shows "\<exists>r s. propagate V = Inr r \<and> opt_state r = Some s \<and>
           (s = NO \<longleftrightarrow> (\<exists>v \<in> set V. state_of v = NO)) \<and>
           (s \<noteq> NO \<longrightarrow> (s = YES \<longleftrightarrow> (\<exists>v \<in> set V. state_of v = YES))) \<and>
           (s \<noteq> NO \<and> s \<noteq> YES \<longrightarrow> s = UNKNOWN) \<and>
           state_value s = Max (state_value ` state_of ` set V)"
proof -
  from propagate_nonempty [OF assms] obtain s where
    r: "propagate V =
          Inr \<lparr>opt_state = Some s, opt_guards = Some (\<Union> (guards_of ` set V))\<rparr>" and
    m: "state_value s = Max (state_value ` state_of ` set V)"
    by blast
  let ?S = "state_value ` state_of ` set V"
  have fin: "finite ?S" and ne: "?S \<noteq> {}" using assms by simp_all
  have mem: "state_value s \<in> ?S" using m Max_in [OF fin ne] by simp
  have ub: "\<And>v. v \<in> set V \<Longrightarrow> state_value (state_of v) \<le> state_value s"
    using m fin by simp
  have no: "s = NO \<longleftrightarrow> (\<exists>v \<in> set V. state_of v = NO)"
  proof
    assume "s = NO"
    with mem obtain v where "v \<in> set V" "state_value (state_of v) = 2" by auto
    then show "\<exists>v \<in> set V. state_of v = NO" by (auto simp: state_value_eq_2)
  next
    assume "\<exists>v \<in> set V. state_of v = NO"
    then obtain v where "v \<in> set V" "state_of v = NO" by blast
    with ub [of v] have "2 \<le> state_value s" by simp
    with state_value_le_2 [of s] show "s = NO" by (simp add: state_value_eq_2 [symmetric])
  qed
  have yes: "s \<noteq> NO \<longrightarrow> (s = YES \<longleftrightarrow> (\<exists>v \<in> set V. state_of v = YES))"
  proof (intro impI iffI)
    assume "s = YES"
    with mem obtain v where "v \<in> set V" "state_value (state_of v) = 1" by auto
    then show "\<exists>v \<in> set V. state_of v = YES" by (auto simp: state_value_eq_1)
  next
    assume n: "s \<noteq> NO" and "\<exists>v \<in> set V. state_of v = YES"
    then obtain v where "v \<in> set V" "state_of v = YES" by blast
    with ub [of v] have "1 \<le> state_value s" by simp
    with n show "s = YES" by (cases s) simp_all
  qed
  have unk: "s \<noteq> NO \<and> s \<noteq> YES \<longrightarrow> s = UNKNOWN" by (cases s) simp_all
  from r no yes unk m show ?thesis by simp
qed

theorem propagate_state_witness:
  "[UnknownVariable \<lparr>state = YES, guards = {}, initial_name = None, global_name = None\<rparr>,
    ConstantVariable \<lparr>state = UNKNOWN, guards = {}, initial_name = None, global_name = None\<rparr>
      (PInt 3)] \<noteq> [] \<and>
   (\<exists>r. propagate
      [UnknownVariable \<lparr>state = YES, guards = {}, initial_name = None, global_name = None\<rparr>,
       ConstantVariable \<lparr>state = UNKNOWN, guards = {}, initial_name = None, global_name = None\<rparr>
         (PInt 3)] = Inr r \<and> opt_state r = Some YES)"
  using propagate_state
    [of "[UnknownVariable \<lparr>state = YES, guards = {}, initial_name = None, global_name = None\<rparr>,
          ConstantVariable \<lparr>state = UNKNOWN, guards = {}, initial_name = None,
            global_name = None\<rparr> (PInt 3)]"]
  by (auto simp: state_of_def)

subsection \<open>Claims about \<^verbatim>\<open>specialize\<close>\<close>

text \<open>
  C9. For every live tensor the record of \<^verbatim>\<open>specialize\<close> has the entries \<^verbatim>\<open>dtype\<close>,
  \<^verbatim>\<open>device\<close> and \<^verbatim>\<open>ndim\<close>, with the element type, the device and the rank of the
  tensor; it has the entries \<^verbatim>\<open>size\<close> and \<^verbatim>\<open>stride\<close> exactly when the setting
  \<^verbatim>\<open>dynamic_shapes\<close> is false, then with the shape and the strides of the tensor, and it
  never has another entry.
\<close>

theorem specialize_props:
  "specialize cfg v ''dtype'' = Some (tensor_dtype v) \<and>
   specialize cfg v ''device'' = Some (tensor_device v) \<and>
   specialize cfg v ''ndim'' = Some (PInt (tensor_ndim v)) \<and>
   (''size'' \<in> dom (specialize cfg v) \<longleftrightarrow> \<not> dynamic_shapes cfg) \<and>
   (''stride'' \<in> dom (specialize cfg v) \<longleftrightarrow> \<not> dynamic_shapes cfg) \<and>
   (\<not> dynamic_shapes cfg \<longrightarrow>
      specialize cfg v ''size'' = Some (PTuple (map PInt (tensor_size v))) \<and>
      specialize cfg v ''stride'' = Some (PTuple (map PInt (tensor_stride v)))) \<and>
   dom (specialize cfg v) =
     (if dynamic_shapes cfg then {''dtype'', ''device'', ''ndim''}
      else {''dtype'', ''device'', ''ndim'', ''size'', ''stride''})"
  by (auto simp: specialize_def Let_def)

theorem specialize_props_witness:
  "\<not> dynamic_shapes \<lparr>dynamic_shapes = False\<rparr> \<and>
   specialize \<lparr>dynamic_shapes = False\<rparr>
     \<lparr>tensor_dtype = PObj 1, tensor_device = PObj 2, tensor_ndim = 2,
      tensor_size = [4, 3], tensor_stride = [3, 1]\<rparr> ''size'' =
     Some (PTuple [PInt 4, PInt 3]) \<and>
   ''size'' \<notin> dom (specialize \<lparr>dynamic_shapes = True\<rparr>
     \<lparr>tensor_dtype = PObj 1, tensor_device = PObj 2, tensor_ndim = 2,
      tensor_size = [4, 3], tensor_stride = [3, 1]\<rparr>)"
  using specialize_props [of "\<lparr>dynamic_shapes = False\<rparr>"
      "\<lparr>tensor_dtype = PObj 1, tensor_device = PObj 2, tensor_ndim = 2,
        tensor_size = [4, 3], tensor_stride = [3, 1]\<rparr>"]
    specialize_props [of "\<lparr>dynamic_shapes = True\<rparr>"
      "\<lparr>tensor_dtype = PObj 1, tensor_device = PObj 2, tensor_ndim = 2,
        tensor_size = [4, 3], tensor_stride = [3, 1]\<rparr>"]
  by simp

subsection \<open>Claims about \<^verbatim>\<open>create_guard\<close>\<close>

lemma create_guard_inherited:
  "\<not> is_GetAttrVariable v \<Longrightarrow>
   create_guard v fn = VariableTracker_create_guard (base_of v) fn"
  by (cases v) simp_all

text \<open>
  C7 (as stated, refuted). An attribute-access value that has a local source name of its
  own, on an object without one: \<^verbatim>\<open>create_guard\<close> raises \<^verbatim>\<open>NotImplementedError\<close>
  although the value has a local binding.
\<close>

theorem create_guard_counterexample:
  "create_guard
     (GetAttrVariable
        \<lparr>state = UNKNOWN, guards = {}, initial_name = Some ''w'', global_name = None\<rparr>
        (UnknownVariable
           \<lparr>state = UNKNOWN, guards = {}, initial_name = None, global_name = None\<rparr>)
        ''weight'')
     (PObj 7) = Inl NotImplementedError \<and>
   truthy_name (initial_name (base_of
     (GetAttrVariable
        \<lparr>state = UNKNOWN, guards = {}, initial_name = Some ''w'', global_name = None\<rparr>
        (UnknownVariable
           \<lparr>state = UNKNOWN, guards = {}, initial_name = None, global_name = None\<rparr>)
        ''weight'')))"
  by simp

text \<open>
  C7 (amended). A binding is present when the name is neither \<^verbatim>\<open>None\<close> nor the empty
  string. On a value of any class but \<^verbatim>\<open>GetAttrVariable\<close>, \<^verbatim>\<open>create_guard\<close> raises
  \<^verbatim>\<open>NotImplementedError\<close> exactly when the value has neither a local nor a global
  binding, and otherwise returns a guard: the local name with the source \<^verbatim>\<open>LOCAL\<close>
  when there is one, else the global name with the source \<^verbatim>\<open>GLOBAL\<close>, and in both
  cases the predicate it was given. On a
  \<^verbatim>\<open>GetAttrVariable\<close> it raises exactly when the accessed object has no local binding,
  whatever the bindings of the value itself, and otherwise returns a \<^verbatim>\<open>LOCAL\<close> guard
  named after the object and the attribute.
\<close>

theorem create_guard_fails_iff:
  "(\<not> is_GetAttrVariable v \<longrightarrow>
      (create_guard v fn = Inl NotImplementedError \<longleftrightarrow>
         \<not> truthy_name (initial_name (base_of v)) \<and>
         \<not> truthy_name (global_name (base_of v))) \<and>
      (truthy_name (initial_name (base_of v)) \<longrightarrow>
         create_guard v fn = Inr (Guard (the (initial_name (base_of v))) LOCAL fn)) \<and>
      (\<not> truthy_name (initial_name (base_of v)) \<and> truthy_name (global_name (base_of v)) \<longrightarrow>
         create_guard v fn = Inr (Guard (the (global_name (base_of v))) GLOBAL fn))) \<and>
   (\<forall>b obj n. v = GetAttrVariable b obj n \<longrightarrow>
      (create_guard v fn = Inl NotImplementedError \<longleftrightarrow>
         \<not> truthy_name (initial_name (base_of obj))) \<and>
      (truthy_name (initial_name (base_of obj)) \<longrightarrow>
         create_guard v fn =
           Inr (Guard (the (initial_name (base_of obj)) @ ''.'' @ n) LOCAL fn)))"
proof (cases "is_GetAttrVariable v")
  case True
  then show ?thesis by (cases v) simp_all
next
  case False
  then have "\<And>b obj n. v \<noteq> GetAttrVariable b obj n" by auto
  with create_guard_inherited [OF False, of fn] show ?thesis
    by (simp add: VariableTracker_create_guard_def)
qed

theorem create_guard_fails_iff_witness:
  "\<not> is_GetAttrVariable
       (UnknownVariable
          \<lparr>state = UNKNOWN, guards = {}, initial_name = None, global_name = Some ''g''\<rparr>) \<and>
   create_guard
       (UnknownVariable
          \<lparr>state = UNKNOWN, guards = {}, initial_name = None, global_name = Some ''g''\<rparr>)
       (PObj 7) = Inr (Guard ''g'' GLOBAL (PObj 7)) \<and>
   create_guard
       (UnknownVariable
          \<lparr>state = UNKNOWN, guards = {}, initial_name = None, global_name = None\<rparr>)
       (PObj 7) = Inl NotImplementedError \<and>
   create_guard
       (GetAttrVariable
          \<lparr>state = UNKNOWN, guards = {}, initial_name = None, global_name = None\<rparr>
          (NNModuleVariable
             \<lparr>state = UNKNOWN, guards = {}, initial_name = Some ''m'', global_name = None\<rparr>
             ''layer'')
          ''weight'')
       (PObj 7) = Inr (Guard ''m.weight'' LOCAL (PObj 7))"
  using create_guard_fails_iff
    [of "UnknownVariable
          \<lparr>state = UNKNOWN, guards = {}, initial_name = None, global_name = Some ''g''\<rparr>"
        "PObj 7"]
    create_guard_fails_iff
    [of "UnknownVariable
          \<lparr>state = UNKNOWN, guards = {}, initial_name = None, global_name = None\<rparr>"
        "PObj 7"]
    create_guard_fails_iff
    [of "GetAttrVariable
          \<lparr>state = UNKNOWN, guards = {}, initial_name = None, global_name = None\<rparr>
          (NNModuleVariable
             \<lparr>state = UNKNOWN, guards = {}, initial_name = Some ''m'', global_name = None\<rparr>
             ''layer'')
          ''weight''"
        "PObj 7"]
  by simp

text \<open>
  C10 (as stated, refuted). An attribute-access value with a local and a global binding of
  its own, on an object named \<^verbatim>\<open>m\<close>: the guard is not on the local name \<^verbatim>\<open>w\<close> of the
  value but on \<^verbatim>\<open>m.weight\<close>.
\<close>

theorem create_guard_precedence_counterexample:
  "create_guard
     (GetAttrVariable
        \<lparr>state = UNKNOWN, guards = {}, initial_name = Some ''w'', global_name = Some ''g''\<rparr>
        (NNModuleVariable
           \<lparr>state = UNKNOWN, guards = {}, initial_name = Some ''m'', global_name = None\<rparr>
           ''layer'')
        ''weight'')
     (PObj 7) = Inr (Guard ''m.weight'' LOCAL (PObj 7)) \<and>
   Guard ''m.weight'' LOCAL (PObj 7) \<noteq> Guard ''w'' LOCAL (PObj 7)"
  by simp

text \<open>
  C10 (amended). On a value of any class but \<^verbatim>\<open>GetAttrVariable\<close>: when the value has a
  local binding, with or without a global one, \<^verbatim>\<open>create_guard\<close> returns the \<^verbatim>\<open>LOCAL\<close>
  guard on the local name; it returns a \<^verbatim>\<open>GLOBAL\<close> guard only when the value has no
  local binding, and then on the global name.
\<close>

theorem create_guard_precedence:
  assumes "\<not> is_GetAttrVariable v"
  shows "(truthy_name (initial_name (base_of v)) \<longrightarrow>
            create_guard v fn = Inr (Guard (the (initial_name (base_of v))) LOCAL fn)) \<and>
         (\<forall>g. create_guard v fn = Inr g \<and> guard_source g = GLOBAL \<longrightarrow>
            \<not> truthy_name (initial_name (base_of v)) \<and>
            truthy_name (global_name (base_of v)) \<and>
            g = Guard (the (global_name (base_of v))) GLOBAL fn)"
  using create_guard_inherited [OF assms, of fn]
  by (auto simp: VariableTracker_create_guard_def split: if_splits)

theorem create_guard_precedence_witness:
  "\<not> is_GetAttrVariable
       (ConstantVariable
          \<lparr>state = YES, guards = {}, initial_name = Some ''x'', global_name = Some ''g''\<rparr>
          (PInt 1)) \<and>
   truthy_name (initial_name (base_of
       (ConstantVariable
          \<lparr>state = YES, guards = {}, initial_name = Some ''x'', global_name = Some ''g''\<rparr>
          (PInt 1)))) \<and>
   create_guard
       (ConstantVariable
          \<lparr>state = YES, guards = {}, initial_name = Some ''x'', global_name = Some ''g''\<rparr>
          (PInt 1))
       (PObj 7) = Inr (Guard ''x'' LOCAL (PObj 7))"
  using create_guard_precedence
    [of "ConstantVariable
          \<lparr>state = YES, guards = {}, initial_name = Some ''x'', global_name = Some ''g''\<rparr>
          (PInt 1)"
        "PObj 7"]
  by simp

subsection \<open>Claims about \<^verbatim>\<open>next_variables\<close>\<close>





text \<open>
  C8. On an iterator whose cursor is at or past the end of its items,
  \<^verbatim>\<open>next_variables\<close> raises \<^verbatim>\<open>StopIteration\<close>, which is another exception than the
  \<^verbatim>\<open>NotImplementedError\<close> the module raises for an unsupported capability, and leaves
  the cursor, the items, the source name and every other field of the iterator as they
  were; so does any number of further advances.
\<close>

theorem next_variables_exhausted:
  assumes "int (length items) \<le> index"
  shows "next_variables (ListIteratorVariable b items index) =
           (Inl StopIteration, ListIteratorVariable b items index) \<and>
         StopIteration \<noteq> NotImplementedError \<and>
         (\<forall>n. advance (Suc n) (ListIteratorVariable b items index) =
            (Inl StopIteration, ListIteratorVariable b items index))"
  using assms by simp

theorem next_variables_exhausted_witness:
  "int (length
      [ConstantVariable
         \<lparr>state = YES, guards = {}, initial_name = None, global_name = None\<rparr> (PInt 10)])
     \<le> 1 \<and>
   next_variables
     (ListIteratorVariable
        \<lparr>state = YES, guards = {}, initial_name = Some ''it'', global_name = None\<rparr>
        [ConstantVariable
           \<lparr>state = YES, guards = {}, initial_name = None, global_name = None\<rparr> (PInt 10)]
        1) =
     (Inl StopIteration,
      ListIteratorVariable
        \<lparr>state = YES, guards = {}, initial_name = Some ''it'', global_name = None\<rparr>
        [ConstantVariable
           \<lparr>state = YES, guards = {}, initial_name = None, global_name = None\<rparr> (PInt 10)]
        1)"
  using next_variables_exhausted
    [of "[ConstantVariable
            \<lparr>state = YES, guards = {}, initial_name = None, global_name = None\<rparr> (PInt 10)]"
        1
        "\<lparr>state = YES, guards = {}, initial_name = Some ''it'', global_name = None\<rparr>"]
  by simp

subsection \<open>Claims about guard sets\<close>








subsection \<open>Claims about identity keys\<close>






subsection \<open>Claims about \<^verbatim>\<open>apply\<close>\<close>

lemma transform_rebuilt: "transform g v = g (rebuilt g v)"
  by (cases v) simp_all










lemma apply_unsortable:
  assumes "\<not> ((\<forall>k \<in> set (map fst items). is_IntKey k) \<or> (\<forall>k \<in> set (map fst items). is_StrKey k))"
  shows "VariableTracker_apply fn (ConstDictVariable b items) s = Inl TypeError"
proof -
  have "sorted_keys (map fst items) = Inl TypeError"
    unfolding sorted_keys_def using assms by (simp only: if_False)
  then show ?thesis by simp
qed





end
